theory Spec2Isabelle
  imports Main "HOL-Library.Word" "HOL-Library.Sublist"
begin

unbundle bit_operations_syntax

section \<open>The bit-field layout probe \<^verbatim>\<open>bitfield_gen/bfgen.c\<close>\<close>

text \<open>
  The program writes 1 into one single-bit field of a zeroed \<^verbatim>\<open>jvmtiCapabilities\<close>
  structure, reads the structure back as raw bytes and prints, for every nonzero byte, its
  offset and its value as four hexadecimal digits. It does so once for every field.

  What the C compiler decides, the program observes: the size of the structure and the
  place of each bit-field. Both are parameters of the model.
\<close>

subsection \<open>Data\<close>

type_synonym u8 = "8 word"

text \<open>The bytes of the local variable \<^verbatim>\<open>cap\<close>, by offset from its address.\<close>

type_synonym memory = "nat \<Rightarrow> u8"

text \<open>The named fields of \<^verbatim>\<open>jvmtiCapabilities\<close>, in the order of their declaration.\<close>

datatype field =
    can_tag_objects
  | can_generate_field_modification_events
  | can_generate_field_access_events
  | can_get_bytecodes
  | can_get_synthetic_attribute
  | can_get_owned_monitor_info
  | can_get_current_contended_monitor
  | can_get_monitor_info
  | can_pop_frame
  | can_redefine_classes
  | can_signal_thread
  | can_get_source_file_name
  | can_get_line_numbers
  | can_get_source_debug_extension
  | can_access_local_variables
  | can_maintain_original_method_order
  | can_generate_single_step_events
  | can_generate_exception_events
  | can_generate_frame_pop_events
  | can_generate_breakpoint_events
  | can_suspend
  | can_redefine_any_class
  | can_get_current_thread_cpu_time
  | can_get_thread_cpu_time
  | can_generate_method_entry_events
  | can_generate_method_exit_events
  | can_generate_all_class_hook_events
  | can_generate_compiled_method_load_events
  | can_generate_monitor_events
  | can_generate_vm_object_alloc_events
  | can_generate_native_method_bind_events
  | can_generate_garbage_collection_events
  | can_generate_object_free_events
  | can_force_early_return
  | can_get_owned_monitor_stack_depth_info
  | can_get_constant_pool
  | can_set_native_method_prefix
  | can_retransform_classes
  | can_retransform_any_class
  | can_generate_resource_exhaustion_heap_events
  | can_generate_resource_exhaustion_threads_events
  | can_generate_early_vmstart
  | can_generate_early_class_hook_events
  | can_generate_sampled_object_alloc_events
  | can_support_virtual_threads

definition jvmtiCapabilities_fields :: "field list" where
  "jvmtiCapabilities_fields =
    [can_tag_objects,
     can_generate_field_modification_events,
     can_generate_field_access_events,
     can_get_bytecodes,
     can_get_synthetic_attribute,
     can_get_owned_monitor_info,
     can_get_current_contended_monitor,
     can_get_monitor_info,
     can_pop_frame,
     can_redefine_classes,
     can_signal_thread,
     can_get_source_file_name,
     can_get_line_numbers,
     can_get_source_debug_extension,
     can_access_local_variables,
     can_maintain_original_method_order,
     can_generate_single_step_events,
     can_generate_exception_events,
     can_generate_frame_pop_events,
     can_generate_breakpoint_events,
     can_suspend,
     can_redefine_any_class,
     can_get_current_thread_cpu_time,
     can_get_thread_cpu_time,
     can_generate_method_entry_events,
     can_generate_method_exit_events,
     can_generate_all_class_hook_events,
     can_generate_compiled_method_load_events,
     can_generate_monitor_events,
     can_generate_vm_object_alloc_events,
     can_generate_native_method_bind_events,
     can_generate_garbage_collection_events,
     can_generate_object_free_events,
     can_force_early_return,
     can_get_owned_monitor_stack_depth_info,
     can_get_constant_pool,
     can_set_native_method_prefix,
     can_retransform_classes,
     can_retransform_any_class,
     can_generate_resource_exhaustion_heap_events,
     can_generate_resource_exhaustion_threads_events,
     can_generate_early_vmstart,
     can_generate_early_class_hook_events,
     can_generate_sampled_object_alloc_events,
     can_support_virtual_threads]"

text \<open>
  The compiler under which the program is built: the value of
  \<^verbatim>\<open>sizeof(jvmtiCapabilities)\<close> and the effect of the assignment \<^verbatim>\<open>cap.f = 1\<close> on the
  bytes of \<^verbatim>\<open>cap\<close>.
\<close>

record compiler =
  sizeof_jvmtiCapabilities :: nat
  assign_1 :: "field \<Rightarrow> memory \<Rightarrow> memory"

text \<open>
  A compiler that gives every single-bit field one bit of the structure: \<open>L f\<close> is the
  position of the bit of field \<open>f\<close>, counted from bit 0 of byte 0, so that the field lies
  in byte \<open>L f div 8\<close> under the mask \<open>1 << (L f mod 8)\<close>. The assignment sets that bit
  and leaves every other bit as it is.
\<close>

definition bitfield_assign_1 :: "(field \<Rightarrow> nat) \<Rightarrow> field \<Rightarrow> memory \<Rightarrow> memory" where
  "bitfield_assign_1 L f m = m(L f div 8 := m (L f div 8) OR push_bit (L f mod 8) 1)"

definition bitfield_compiler :: "nat \<Rightarrow> (field \<Rightarrow> nat) \<Rightarrow> compiler" where
  "bitfield_compiler sz L = \<lparr>sizeof_jvmtiCapabilities = sz, assign_1 = bitfield_assign_1 L\<rparr>"

text \<open>
  The layout of the common little-endian ABIs: fields are packed in declaration order,
  starting at the least significant bit of byte 0.
\<close>

definition declaration_order :: "field \<Rightarrow> nat" where
  "declaration_order f = length (takeWhile (\<lambda>g. g \<noteq> f) jvmtiCapabilities_fields)"

text \<open>The running program: the bytes of \<^verbatim>\<open>cap\<close> and what was written to standard output.\<close>

record process =
  cap :: memory
  stdout :: string

text \<open>How the program ends: a call of \<^verbatim>\<open>exit\<close>, or a \<^verbatim>\<open>return\<close> from \<^verbatim>\<open>main\<close>.\<close>

datatype exit_path = Exit int | Return int

text \<open>The exit status the parent process observes: the low eight bits of the value.\<close>

fun exit_status :: "exit_path \<Rightarrow> nat" where
  "exit_status (Exit v) = nat (v mod 256)"
| "exit_status (Return v) = nat (v mod 256)"

subsection \<open>\<^verbatim>\<open>printf\<close> with the format \<^verbatim>\<open>0x%02X%02X\<close>\<close>

definition hex_digit :: "nat \<Rightarrow> char" where
  "hex_digit d = ''0123456789ABCDEF'' ! d"

text \<open>The conversion \<^verbatim>\<open>%X\<close>: upper-case hexadecimal digits, no leading zeros.\<close>

function hex_X :: "nat \<Rightarrow> string" where
  "hex_X v = (if v < 16 then [hex_digit v] else hex_X (v div 16) @ [hex_digit (v mod 16)])"
  by pat_completeness auto
termination
  by (relation "measure (\<lambda>v. v)") auto

text \<open>The conversion \<^verbatim>\<open>%02X\<close>: padded with zeros on the left to at least two digits.\<close>

definition fmt_02X :: "nat \<Rightarrow> string" where
  "fmt_02X v = replicate (2 - length (hex_X v)) (CHR ''0'') @ hex_X v"

definition printf_0x_02X_02X :: "nat \<Rightarrow> nat \<Rightarrow> string" where
  "printf_0x_02X_02X a b = ''0x'' @ fmt_02X a @ fmt_02X b"

subsection \<open>\<^verbatim>\<open>dbg\<close>\<close>

text \<open>
  The loop \<^verbatim>\<open>for (int i = 0; i < 16; i++)\<close> of \<^verbatim>\<open>dbg\<close>, from index \<open>i\<close> on; \<open>out\<close> is
  standard output so far.
\<close>

function dbg_loop :: "memory \<Rightarrow> nat \<Rightarrow> string \<Rightarrow> string" where
  "dbg_loop n i out =
     (if i < 16
      then dbg_loop n (i + 1)
             (if n i \<noteq> 0 then out @ printf_0x_02X_02X i (unat (n i)) else out)
      else out)"
  by pat_completeness auto
termination
  by (relation "measure (\<lambda>(n, i, out). 16 - i)") auto

definition dbg :: "memory \<Rightarrow> string \<Rightarrow> string" where
  "dbg n out = dbg_loop n 0 out @ '';\<newline>''"

subsection \<open>\<^verbatim>\<open>main\<close>\<close>

text \<open>\<^verbatim>\<open>memset(p, 0, k)\<close> on the bytes of \<^verbatim>\<open>cap\<close>.\<close>

definition memset_zero :: "nat \<Rightarrow> memory \<Rightarrow> memory" where
  "memset_zero k m = (\<lambda>i. if i < k then 0 else m i)"

text \<open>
  The blocks of \<^verbatim>\<open>main\<close>, top to bottom: the text of the first \<^verbatim>\<open>printf\<close> of the block
  and the field the block assigns.
\<close>

definition catalog :: "(string \<times> field) list" where
  "catalog =
    [(''pub const OFFSET_CAN_TAG_OBJECTS : usize = '',
      can_tag_objects),
     (''pub const OFFSET_CAN_GENERATE_FIELD_MODIFICATION_EVENTS : usize = '',
      can_generate_field_modification_events),
     (''pub const OFFSET_CAN_GENERATE_FIELD_ACCESS_EVENTS : usize = '',
      can_generate_field_access_events),
     (''pub const OFFSET_CAN_GET_BYTECODES : usize = '',
      can_get_bytecodes),
     (''pub const OFFSET_CAN_GET_SYNTHETIC_ATTRIBUTE : usize = '',
      can_get_synthetic_attribute),
     (''pub const OFFSET_CAN_GET_OWNED_MONITOR_INFO : usize = '',
      can_get_owned_monitor_info),
     (''pub const OFFSET_CAN_GET_CURRENT_CONTENDED_MONITOR : usize = '',
      can_get_current_contended_monitor),
     (''pub const OFFSET_CAN_GET_MONITOR_INFO : usize = '',
      can_get_monitor_info),
     (''pub const OFFSET_CAN_POP_FRAME : usize = '',
      can_pop_frame),
     (''pub const OFFSET_CAN_REDEFINE_CLASSES : usize = '',
      can_redefine_classes),
     (''pub const OFFSET_CAN_SIGNAL_THREAD : usize = '',
      can_signal_thread),
     (''pub const OFFSET_CAN_GET_SOURCE_FILE_NAME : usize = '',
      can_get_source_file_name),
     (''pub const OFFSET_CAN_GET_LINE_NUMBERS : usize = '',
      can_get_line_numbers),
     (''pub const OFFSET_CAN_GET_SOURCE_DEBUG_EXTENSION : usize = '',
      can_get_source_debug_extension),
     (''pub const OFFSET_CAN_ACCESS_LOCAL_VARIABLES : usize = '',
      can_access_local_variables),
     (''pub const OFFSET_CAN_MAINTAIN_ORIGINAL_METHOD_ORDER : usize = '',
      can_maintain_original_method_order),
     (''pub const OFFSET_CAN_GENERATE_SINGLE_STEP_EVENTS : usize = '',
      can_generate_single_step_events),
     (''pub const OFFSET_CAN_GENERATE_EXCEPTION_EVENTS : usize = '',
      can_generate_exception_events),
     (''pub const OFFSET_CAN_GENERATE_FRAME_POP_EVENTS : usize = '',
      can_generate_frame_pop_events),
     (''pub const OFFSET_CAN_GENERATE_BREAKPOINT_EVENTS : usize = '',
      can_generate_breakpoint_events),
     (''pub const OFFSET_CAN_SUSPEND : usize = '',
      can_suspend),
     (''pub const OFFSET_CAN_REDEFINE_ANY_CLASS : usize = '',
      can_redefine_any_class),
     (''pub const OFFSET_CAN_GET_CURRENT_THREAD_CPU_TIME : usize = '',
      can_get_current_thread_cpu_time),
     (''pub const OFFSET_CAN_GET_THREAD_CPU_TIME : usize = '',
      can_get_thread_cpu_time),
     (''pub const OFFSET_CAN_GENERATE_METHOD_ENTRY_EVENTS : usize = '',
      can_generate_method_entry_events),
     (''pub const OFFSET_CAN_GENERATE_METHOD_EXIT_EVENTS : usize = '',
      can_generate_method_exit_events),
     (''pub const OFFSET_CAN_GENERATE_ALL_CLASS_HOOK_EVENTS : usize = '',
      can_generate_all_class_hook_events),
     (''pub const OFFSET_CAN_GENERATE_COMPILED_METHOD_LOAD_EVENTS : usize = '',
      can_generate_compiled_method_load_events),
     (''pub const OFFSET_CAN_GENERATE_MONITOR_EVENTS : usize = '',
      can_generate_monitor_events),
     (''pub const OFFSET_CAN_GENERATE_VM_OBJECT_ALLOC_EVENTS : usize = '',
      can_generate_vm_object_alloc_events),
     (''pub const OFFSET_CAN_GENERATE_NATIVE_METHOD_BIND_EVENTS : usize = '',
      can_generate_native_method_bind_events),
     (''pub const OFFSET_CAN_GENERATE_GARBAGE_COLLECTION_EVENTS : usize = '',
      can_generate_garbage_collection_events),
     (''pub const OFFSET_CAN_GENERATE_OBJECT_FREE_EVENTS : usize = '',
      can_generate_object_free_events),
     (''pub const OFFSET_CAN_FORCE_EARLY_RETURN : usize = '',
      can_force_early_return),
     (''pub const OFFSET_CAN_GET_OWNED_MONITOR_STACK_DEPTH_INFO : usize = '',
      can_get_owned_monitor_stack_depth_info),
     (''pub const OFFSET_CAN_GET_CONSTANT_POOL : usize = '',
      can_get_constant_pool),
     (''pub const OFFSET_CAN_SET_NATIVE_METHOD_PREFIX : usize = '',
      can_set_native_method_prefix),
     (''pub const OFFSET_CAN_RETRANSFORM_CLASSES : usize = '',
      can_retransform_classes),
     (''pub const OFFSET_CAN_RETRANSFORM_ANY_CLASS : usize = '',
      can_retransform_any_class),
     (''pub const OFFSET_CAN_GENERATE_RESOURCE_EXHAUSTION_HEAP_EVENTS : usize = '',
      can_generate_resource_exhaustion_heap_events),
     (''pub const OFFSET_CAN_GENERATE_RESOURCE_EXHAUSTION_THREAD_EVENETS : usize = '',
      can_generate_resource_exhaustion_threads_events),
     (''pub const OFFSET_CAN_GENERATE_EARLY_VMSTART : usize = '',
      can_generate_early_vmstart),
     (''pub const OFFSET_CAN_GENERATE_EARLY_CLASS_HOOK_EVENTS : usize = '',
      can_generate_early_class_hook_events),
     (''pub const OFFSET_CAN_GENERATE_SAMPLED_OBJECT_ALLOC_EVENTS : usize = '',
      can_generate_sampled_object_alloc_events),
     (''pub const OFFSET_CAN_SUPPORT_VIRTUAL_THREADS : usize = '',
      can_support_virtual_threads)]"

text \<open>
  One block of \<^verbatim>\<open>main\<close>: print the text, clear \<^verbatim>\<open>cap\<close>, assign 1 to the field,
  call \<^verbatim>\<open>dbg\<close>.
\<close>

definition probe :: "compiler \<Rightarrow> process \<Rightarrow> string \<times> field \<Rightarrow> process" where
  "probe c p e =
     (let p1 = p\<lparr>stdout := stdout p @ fst e\<rparr>;
          p2 = p1\<lparr>cap := memset_zero (sizeof_jvmtiCapabilities c) (cap p1)\<rparr>;
          p3 = p2\<lparr>cap := assign_1 c (snd e) (cap p2)\<rparr>
      in p3\<lparr>stdout := dbg (cap p3) (stdout p3)\<rparr>)"

text \<open>
  \<^verbatim>\<open>main\<close>, given the compiler and the bytes that \<^verbatim>\<open>cap\<close> holds before it is first
  written: how the program ends, and its standard output.
\<close>

definition main :: "compiler \<Rightarrow> memory \<Rightarrow> exit_path \<times> string" where
  "main c cap0 =
     (if sizeof_jvmtiCapabilities c \<noteq> 16 then (Exit (- 1), [])
      else (Return 0, stdout (foldl (probe c) \<lparr>cap = cap0, stdout = []\<rparr> catalog)))"

subsection \<open>Notions used to state the properties\<close>

text \<open>
  What \<^verbatim>\<open>dbg\<close> prints for the byte at offset \<open>i\<close>: nothing for a zero byte, else
  \<^verbatim>\<open>0x\<close>, the offset and the value of the byte.
\<close>

definition chunk :: "memory \<Rightarrow> nat \<Rightarrow> string" where
  "chunk n i = (if n i \<noteq> 0 then printf_0x_02X_02X i (unat (n i)) else [])"

text \<open>The offsets of the nonzero bytes among the 16 bytes that \<^verbatim>\<open>dbg\<close> reads, ascending.\<close>

definition nonzero_offsets :: "memory \<Rightarrow> nat list" where
  "nonzero_offsets n = filter (\<lambda>i. n i \<noteq> 0) [0..<16]"

text \<open>
  The bytes of \<^verbatim>\<open>cap\<close> at the call of \<^verbatim>\<open>dbg\<close> in the block that assigns field \<open>f\<close>, when
  \<^verbatim>\<open>cap\<close> held \<open>m\<close> at the start of the block; and the same for a run of blocks.
\<close>

definition at_scan :: "compiler \<Rightarrow> field \<Rightarrow> memory \<Rightarrow> memory" where
  "at_scan c f m = assign_1 c f (memset_zero (sizeof_jvmtiCapabilities c) m)"

fun scanned :: "compiler \<Rightarrow> memory \<Rightarrow> field list \<Rightarrow> memory list" where
  "scanned c m [] = []"
| "scanned c m (f # fs) = at_scan c f m # scanned c (at_scan c f m) fs"

text \<open>The number of lines of an output: the number of its newline characters.\<close>

definition line_count :: "string \<Rightarrow> nat" where
  "line_count out = length (filter (\<lambda>ch. ch = CHR 0x0A) out)"

text \<open>
  The value that a hexadecimal integer literal \<^verbatim>\<open>0x...\<close> denotes in the generated
  source text; \<open>None\<close> for a text that is no such literal.
\<close>

definition hex_digit_value :: "char \<Rightarrow> nat option" where
  "hex_digit_value c =
     (if c \<in> set ''0123456789'' then Some (of_char c - 48)
      else if c \<in> set ''ABCDEF'' then Some (of_char c - 55)
      else if c \<in> set ''abcdef'' then Some (of_char c - 87)
      else None)"

fun hex_digits_value :: "nat \<Rightarrow> string \<Rightarrow> nat option" where
  "hex_digits_value acc [] = Some acc"
| "hex_digits_value acc (c # cs) =
     (case hex_digit_value c of
        None \<Rightarrow> None
      | Some d \<Rightarrow> hex_digits_value (16 * acc + d) cs)"

fun hex_literal_value :: "string \<Rightarrow> nat option" where
  "hex_literal_value (a # b # d # ds) =
     (if a = CHR ''0'' \<and> b = CHR ''x'' then hex_digits_value 0 (d # ds) else None)"
| "hex_literal_value _ = None"

text \<open>
  Two compilers and two memories to run the program on. \<open>silent_compiler\<close> reports the
  size 16 and leaves the bytes of \<^verbatim>\<open>cap\<close> untouched on an assignment, so that \<^verbatim>\<open>dbg\<close>
  scans an image without a nonzero byte; \<open>wide_compiler\<close> writes into two bytes at
  once, and two bits into one of them. No C compiler behaves so: they serve to run the
  program on the images that a single-bit field cannot produce.
\<close>

definition silent_compiler :: compiler where
  "silent_compiler = \<lparr>sizeof_jvmtiCapabilities = 16, assign_1 = (\<lambda>f m. m)\<rparr>"

definition wide_compiler :: compiler where
  "wide_compiler =
     \<lparr>sizeof_jvmtiCapabilities = 16, assign_1 = (\<lambda>f m. m(0 := 3, 3 := 1))\<rparr>"

definition zero_memory :: memory where
  "zero_memory = (\<lambda>i. 0)"

definition stale_memory :: memory where
  "stale_memory = (\<lambda>i. 0xA5)"

declare hex_X.simps [simp del] dbg_loop.simps [simp del]

section \<open>Auxiliary facts\<close>

subsection \<open>The loop of \<^verbatim>\<open>dbg\<close>\<close>

lemma dbg_loop_chunks: "dbg_loop n i out = out @ concat (map (chunk n) [i..<16])"
proof (induction n i out rule: dbg_loop.induct)
  case (1 n i out)
  show ?case
  proof (cases "i < 16")
    case True
    let ?out' = "if n i \<noteq> 0 then out @ printf_0x_02X_02X i (unat (n i)) else out"
    have out': "?out' = out @ chunk n i"
      by (simp add: chunk_def)
    have "dbg_loop n i out = dbg_loop n (i + 1) ?out'"
      using True by (subst dbg_loop.simps) simp
    also have "\<dots> = ?out' @ concat (map (chunk n) [i + 1..<16])"
      using True by (rule "1.IH")
    also have "\<dots> = out @ concat (map (chunk n) (i # [i + 1..<16]))"
      unfolding out' by simp
    also have "i # [i + 1..<16] = [i..<16]"
      using True by (simp add: upt_conv_Cons)
    finally show ?thesis .
  next
    case False
    then show ?thesis by (subst dbg_loop.simps) simp
  qed
qed

lemma dbg_chunks: "dbg n out = out @ concat (map (chunk n) [0..<16]) @ '';\<newline>''"
  by (simp add: dbg_def dbg_loop_chunks)

lemma concat_chunks_filter:
  "concat (map (chunk n) xs) =
   concat (map (\<lambda>i. printf_0x_02X_02X i (unat (n i))) (filter (\<lambda>i. n i \<noteq> 0) xs))"
  by (induction xs) (simp_all add: chunk_def)

lemma dbg_nonzero_offsets:
  "dbg n out =
   out @ concat (map (\<lambda>i. printf_0x_02X_02X i (unat (n i))) (nonzero_offsets n)) @ '';\<newline>''"
  by (simp add: dbg_chunks concat_chunks_filter nonzero_offsets_def)

lemma concat_chunks_zero: "\<forall>i \<in> set xs. n i = 0 \<Longrightarrow> concat (map (chunk n) xs) = []"
  by (induction xs) (simp_all add: chunk_def)

lemma chunks_single:
  assumes "i < 16" and "\<forall>j < 16. j \<noteq> i \<longrightarrow> n j = 0"
  shows "concat (map (chunk n) [0..<16]) = chunk n i"
proof -
  have "[0..<16] = [0..<i] @ [i..<16]"
    using assms(1) upt_add_eq_append [of 0 i "16 - i"] by simp
  also have "[i..<16] = i # [Suc i..<16]"
    using assms(1) by (simp add: upt_conv_Cons)
  finally have split: "[0..<16] = [0..<i] @ i # [Suc i..<16]" .
  have before: "concat (map (chunk n) [0..<i]) = []"
    using assms by (intro concat_chunks_zero) simp
  have after: "concat (map (chunk n) [Suc i..<16]) = []"
    using assms by (intro concat_chunks_zero) simp
  show ?thesis
    unfolding split map_append concat_append list.map concat.simps before after by simp
qed

lemma dbg_single_byte:
  assumes "i < 16" and "n i \<noteq> 0" and "\<forall>j < 16. j \<noteq> i \<longrightarrow> n j = 0"
  shows "dbg n out = out @ printf_0x_02X_02X i (unat (n i)) @ '';\<newline>''"
  using assms by (simp add: dbg_chunks chunks_single chunk_def)

lemma dbg_zero_image:
  assumes "nonzero_offsets n = []"
  shows "dbg n out = out @ '';\<newline>''"
  using assms by (simp add: dbg_nonzero_offsets)

lemma dbg_append: "dbg n out = out @ dbg n []"
  by (simp add: dbg_chunks)

lemma dbg_cong16:
  assumes "\<And>i. i < 16 \<Longrightarrow> n i = n' i"
  shows "dbg n out = dbg n' out"
proof -
  have "map (chunk n) [0..<16] = map (chunk n') [0..<16]"
    using assms by (intro map_cong refl) (simp add: chunk_def)
  then show ?thesis
    unfolding dbg_chunks by (rule arg_cong)
qed

subsection \<open>Hexadecimal digits\<close>

lemma hex_digit_value_table:
  "\<forall>d \<in> set [0..<16]. hex_digit_value (hex_digit d) = Some d"
  by code_simp

lemma hex_digit_value_hex_digit: "d < 16 \<Longrightarrow> hex_digit_value (hex_digit d) = Some d"
  using hex_digit_value_table by simp

lemma hex_digits_value_append:
  "hex_digits_value acc (xs @ ys) =
   (case hex_digits_value acc xs of None \<Rightarrow> None | Some a \<Rightarrow> hex_digits_value a ys)"
  by (induction xs arbitrary: acc) (simp_all split: option.splits)

lemma hex_digits_value_hex_X:
  "hex_digits_value acc (hex_X v) = Some (acc * 16 ^ length (hex_X v) + v)"
proof (induction v arbitrary: acc rule: hex_X.induct)
  case (1 v)
  show ?case
  proof (cases "v < 16")
    case True
    then show ?thesis
      by (subst (1 2) hex_X.simps) (simp add: hex_digit_value_hex_digit)
  next
    case False
    have d: "hex_digit_value (hex_digit (v mod 16)) = Some (v mod 16)"
      by (simp add: hex_digit_value_hex_digit)
    from False 1 [of acc] d show ?thesis
      by (subst (1 2) hex_X.simps) (simp add: hex_digits_value_append algebra_simps)
  qed
qed

lemma hex_digits_value_zeros:
  "hex_digits_value 0 (replicate k (CHR ''0'') @ s) = hex_digits_value 0 s"
  by (induction k) (simp_all add: hex_digit_value_def)

lemma length_hex_X_small: "v < 256 \<Longrightarrow> length (hex_X v) \<le> 2"
proof -
  assume v: "v < 256"
  show ?thesis
  proof (cases "v < 16")
    case True
    then show ?thesis by (subst hex_X.simps) simp
  next
    case False
    from v have "v div 16 < 16" by simp
    then have "hex_X (v div 16) = [hex_digit (v div 16)]"
      by (subst hex_X.simps) simp
    with False show ?thesis by (subst hex_X.simps) simp
  qed
qed

lemma length_hex_X_pos: "0 < length (hex_X v)"
  by (subst hex_X.simps) simp

lemma length_fmt_02X: "v < 256 \<Longrightarrow> length (fmt_02X v) = 2"
  using length_hex_X_small [of v] length_hex_X_pos [of v] by (simp add: fmt_02X_def)

lemma hex_digits_value_fmt_02X: "hex_digits_value 0 (fmt_02X v) = Some v"
  by (simp add: fmt_02X_def hex_digits_value_zeros hex_digits_value_hex_X)

lemma hex_digits_value_pad:
  "hex_digits_value acc (replicate k (CHR ''0'') @ s) = hex_digits_value (acc * 16 ^ k) s"
proof (induction k arbitrary: acc)
  case 0
  then show ?case by simp
next
  case (Suc k)
  have "hex_digit_value (CHR ''0'') = Some 0"
    by (simp add: hex_digit_value_def)
  then show ?case
    by (simp add: Suc.IH mult.assoc mult.commute)
qed

lemma hex_digits_value_acc_fmt_02X:
  "hex_digits_value acc (fmt_02X v) = Some (acc * 16 ^ length (fmt_02X v) + v)"
  by (simp add: fmt_02X_def hex_digits_value_pad hex_digits_value_hex_X
      power_add mult.assoc)

lemma hex_literal_value_printf:
  assumes "b < 256"
  shows "hex_literal_value (printf_0x_02X_02X a b) = Some (a * 256 + b)"
proof -
  obtain d ds where ds: "fmt_02X a @ fmt_02X b = d # ds"
    using length_fmt_02X [OF assms] by (cases "fmt_02X a @ fmt_02X b") auto
  have "hex_literal_value (printf_0x_02X_02X a b) = hex_digits_value 0 (fmt_02X a @ fmt_02X b)"
    by (simp add: printf_0x_02X_02X_def ds)
  also have "\<dots> = hex_digits_value a (fmt_02X b)"
    by (simp add: hex_digits_value_append hex_digits_value_fmt_02X)
  also have "\<dots> = Some (a * 256 + b)"
    by (simp add: hex_digits_value_acc_fmt_02X length_fmt_02X [OF assms])
  finally show ?thesis .
qed

lemma shift_or_add:
  fixes a b :: nat
  assumes "b < 256"
  shows "push_bit 8 a OR b = a * 256 + b"
proof -
  from assms have b: "take_bit 8 b = b"
    by (simp add: take_bit_nat_eq_self)
  have "push_bit 8 a AND take_bit 8 b = 0"
    by (rule bit_eqI) (auto simp: bit_simps)
  then have "push_bit 8 a + b = push_bit 8 a OR b"
    unfolding b by (rule disjunctive_add_eq_or)
  then show ?thesis
    by (simp add: push_bit_eq_mult)
qed

lemma unat_u8_less: "unat (b :: u8) < 256"
  using unsigned_less [of b, where 'a = nat] by simp

lemma single_bit_masks_nonzero:
  "(bitmask :: u8) \<in> {0x01, 0x02, 0x04, 0x08, 0x10, 0x20, 0x40, 0x80} \<Longrightarrow> bitmask \<noteq> 0"
  by auto

lemma hex_digit_in_digits: "d < 16 \<Longrightarrow> hex_digit d \<in> set ''0123456789ABCDEF''"
  unfolding hex_digit_def by (rule nth_mem) simp

lemma set_hex_X: "set (hex_X v) \<subseteq> set ''0123456789ABCDEF''"
proof (induction v rule: hex_X.induct)
  case (1 v)
  show ?case
  proof (cases "v < 16")
    case True
    then show ?thesis
      using hex_digit_in_digits [of v] by (subst hex_X.simps) simp
  next
    case False
    then show ?thesis
      using "1.IH" hex_digit_in_digits [of "v mod 16"] by (subst hex_X.simps) simp
  qed
qed

lemma set_fmt_02X: "set (fmt_02X v) \<subseteq> set ''0123456789ABCDEF''"
  using set_hex_X [of v] by (auto simp: fmt_02X_def)

subsection \<open>Lines\<close>

lemma line_count_append: "line_count (xs @ ys) = line_count xs + line_count ys"
  by (simp add: line_count_def)

lemma line_count_Nil: "line_count [] = 0"
  by (simp add: line_count_def)

lemma line_count_no_newline: "CHR 0x0A \<notin> set xs \<Longrightarrow> line_count xs = 0"
  by (induction xs) (auto simp: line_count_def)

lemma line_count_fmt_02X: "line_count (fmt_02X v) = 0"
proof (rule line_count_no_newline)
  show "CHR 0x0A \<notin> set (fmt_02X v)"
    using set_fmt_02X [of v] by auto
qed

lemma line_count_printf: "line_count (printf_0x_02X_02X a b) = 0"
proof -
  have "line_count ''0x'' = 0"
    by (simp add: line_count_def)
  then show ?thesis
    by (simp add: printf_0x_02X_02X_def line_count_append line_count_fmt_02X
        del: append.simps)
qed

lemma line_count_chunk: "line_count (chunk n i) = 0"
  by (simp add: chunk_def line_count_printf line_count_Nil)

lemma line_count_chunks: "line_count (concat (map (chunk n) xs)) = 0"
  by (induction xs) (simp_all add: line_count_append line_count_chunk line_count_Nil)

lemma line_count_dbg: "line_count (dbg n []) = 1"
proof -
  have "line_count '';\<newline>'' = 1"
    by (simp add: line_count_def)
  then show ?thesis
    by (simp add: dbg_chunks line_count_append line_count_chunks line_count_Nil
        del: append.simps)
qed

lemma line_count_blocks:
  assumes "length imgs = length es" and "\<forall>e \<in> set es. line_count (fst e) = 0"
  shows "line_count (concat (map2 (\<lambda>e img. fst e @ dbg img []) es imgs)) = length es"
  using assms
  by (induction imgs es rule: list_induct2)
     (simp_all add: line_count_append line_count_dbg line_count_Nil)

subsection \<open>The blocks of \<^verbatim>\<open>main\<close>\<close>

lemma cap_probe: "cap (probe c p e) = at_scan c (snd e) (cap p)"
  by (simp add: probe_def at_scan_def Let_def)

lemma stdout_probe:
  "stdout (probe c p e) = stdout p @ fst e @ dbg (at_scan c (snd e) (cap p)) []"
  by (simp add: probe_def at_scan_def Let_def dbg_append [of _ "stdout p @ fst e"])

lemma stdout_foldl_probe:
  "stdout (foldl (probe c) p es) =
   stdout p @
   concat (map2 (\<lambda>e img. fst e @ dbg img []) es (scanned c (cap p) (map snd es)))"
proof (induction es arbitrary: p)
  case Nil
  show ?case by simp
next
  case (Cons e es)
  have "stdout (foldl (probe c) p (e # es)) = stdout (foldl (probe c) (probe c p e) es)"
    by simp
  also have "\<dots> = stdout (probe c p e) @
      concat (map2 (\<lambda>e img. fst e @ dbg img []) es
                (scanned c (cap (probe c p e)) (map snd es)))"
    by (rule Cons.IH)
  finally show ?case
    by (simp add: cap_probe stdout_probe)
qed

lemma length_scanned: "length (scanned c m fs) = length fs"
  by (induction fs arbitrary: m) simp_all

lemma main_eq:
  "sizeof_jvmtiCapabilities c = 16 \<Longrightarrow>
   main c cap0 =
   (Return 0, concat (map2 (\<lambda>e img. fst e @ dbg img []) catalog
                        (scanned c cap0 (map snd catalog))))"
  by (simp add: main_def stdout_foldl_probe)

lemma fst_main: "sizeof_jvmtiCapabilities c = 16 \<Longrightarrow> fst (main c cap0) = Return 0"
  by (simp add: main_def)

lemma catalog_texts_one_line: "\<forall>e \<in> set catalog. line_count (fst e) = 0"
  by (simp add: catalog_def line_count_def)

lemma length_catalog: "length catalog = 45"
  by (simp add: catalog_def)

lemma length_fields: "length jvmtiCapabilities_fields = 45"
  by (simp add: jvmtiCapabilities_fields_def)

lemma catalog_fields: "map snd catalog = jvmtiCapabilities_fields"
  by (simp add: catalog_def jvmtiCapabilities_fields_def)

lemma catalog_Cons:
  "catalog = (''pub const OFFSET_CAN_TAG_OBJECTS : usize = '', can_tag_objects) # tl catalog"
  by (simp add: catalog_def)

lemma line_count_main:
  assumes "sizeof_jvmtiCapabilities c = 16"
  shows "line_count (snd (main c cap0)) = 45"
proof -
  have "length (scanned c cap0 (map snd catalog)) = length catalog"
    by (simp add: length_scanned)
  then have "line_count (concat (map2 (\<lambda>e img. fst e @ dbg img []) catalog
                 (scanned c cap0 (map snd catalog)))) = length catalog"
    using catalog_texts_one_line by (rule line_count_blocks)
  then show ?thesis
    by (simp add: main_eq [OF assms] length_catalog)
qed

lemma main_first_block:
  assumes "sizeof_jvmtiCapabilities c = 16"
  shows "prefix (''pub const OFFSET_CAN_TAG_OBJECTS : usize = ''
                 @ dbg (at_scan c can_tag_objects cap0) [])
           (snd (main c cap0))"
proof -
  let ?e = "(''pub const OFFSET_CAN_TAG_OBJECTS : usize = '', can_tag_objects)"
  have "snd (main c cap0) =
      concat (map2 (\<lambda>e img. fst e @ dbg img []) (?e # tl catalog)
                (scanned c cap0 (map snd (?e # tl catalog))))"
    using main_eq [OF assms, of cap0] catalog_Cons by simp
  then show ?thesis
    by (simp del: append.simps)
qed

subsection \<open>The compilers\<close>

lemma sizeof_bitfield: "sizeof_jvmtiCapabilities (bitfield_compiler sz L) = sz"
  by (simp add: bitfield_compiler_def)

lemma at_scan_bitfield:
  assumes "i < 16"
  shows "at_scan (bitfield_compiler 16 L) f m i =
         (if i = L f div 8 then push_bit (L f mod 8) 1 else 0)"
  using assms
  by (simp add: at_scan_def bitfield_compiler_def bitfield_assign_1_def memset_zero_def)

lemma dbg_at_scan_bitfield:
  "dbg (at_scan (bitfield_compiler 16 L) f m) out =
   dbg (zero_memory(L f div 8 := push_bit (L f mod 8) 1)) out"
  by (rule dbg_cong16) (simp add: at_scan_bitfield zero_memory_def)

lemma blocks_bitfield:
  "map2 (\<lambda>e img. fst e @ dbg img []) es (scanned (bitfield_compiler 16 L) m (map snd es)) =
   map (\<lambda>e. fst e @ dbg (zero_memory(L (snd e) div 8 := push_bit (L (snd e) mod 8) 1)) []) es"
  by (induction es arbitrary: m) (simp_all add: dbg_at_scan_bitfield)

lemma main_bitfield:
  "main (bitfield_compiler 16 L) cap0 =
   (Return 0,
    concat (map (\<lambda>e. fst e @ dbg (zero_memory(L (snd e) div 8 := push_bit (L (snd e) mod 8) 1)) [])
              catalog))"
proof -
  have "sizeof_jvmtiCapabilities (bitfield_compiler 16 L) = 16"
    by (simp add: bitfield_compiler_def)
  then show ?thesis
    by (simp only: main_eq blocks_bitfield)
qed

lemma declaration_order_can_suspend: "declaration_order can_suspend = 20"
  by (simp add: declaration_order_def jvmtiCapabilities_fields_def)

lemma declaration_order_can_tag_objects: "declaration_order can_tag_objects = 0"
  by (simp add: declaration_order_def jvmtiCapabilities_fields_def)

lemma nonzero_offsets_byte0:
  assumes "\<forall>i < 16. n i = (if i = 0 then b else 0)" and "b \<noteq> 0"
  shows "nonzero_offsets n = [0]"
proof -
  have "filter (\<lambda>i. n i \<noteq> 0) [0..<16] = filter (\<lambda>i. i = 0) [0..<16]"
    using assms by (intro filter_cong refl) auto
  then show ?thesis
    by (simp add: nonzero_offsets_def upt_conv_Cons)
qed

lemma sizeof_silent: "sizeof_jvmtiCapabilities silent_compiler = 16"
  by (simp add: silent_compiler_def)

lemma sizeof_wide: "sizeof_jvmtiCapabilities wide_compiler = 16"
  by (simp add: wide_compiler_def)

lemma nonzero_offsets_silent: "nonzero_offsets (at_scan silent_compiler f m) = []"
  by (simp add: nonzero_offsets_def at_scan_def silent_compiler_def memset_zero_def)

lemma nonzero_offsets_wide: "nonzero_offsets (at_scan wide_compiler f m) = [0, 3]"
  by (simp add: nonzero_offsets_def at_scan_def wide_compiler_def memset_zero_def upt_conv_Cons)

section \<open>The claims\<close>

subsection \<open>C1\<close>

text \<open>
  Claim C1 says that a scanned image without a nonzero byte, with more than one nonzero
  byte, or with a byte of more than one bit ends the program with a nonzero exit status and
  without further output. The program has no such check. Under \<open>silent_compiler\<close> the
  first block scans an image without a nonzero byte, under \<open>wide_compiler\<close> an image
  with two nonzero bytes, one of them \<open>0x03\<close>; in both runs the line of the first block
  is printed, the output has all 45 lines and the exit status is zero.
\<close>

theorem inconsistent_image_counterexample:
  "sizeof_jvmtiCapabilities silent_compiler = 16
   \<and> nonzero_offsets (at_scan silent_compiler can_tag_objects stale_memory) = []
   \<and> prefix ''pub const OFFSET_CAN_TAG_OBJECTS : usize = ;\<newline>''
        (snd (main silent_compiler stale_memory))
   \<and> exit_status (fst (main silent_compiler stale_memory)) = 0
   \<and> line_count (snd (main silent_compiler stale_memory)) = 45
   \<and> sizeof_jvmtiCapabilities wide_compiler = 16
   \<and> nonzero_offsets (at_scan wide_compiler can_tag_objects stale_memory) = [0, 3]
   \<and> at_scan wide_compiler can_tag_objects stale_memory 0 = 0x03
   \<and> prefix ''pub const OFFSET_CAN_TAG_OBJECTS : usize = 0x00030x0301;\<newline>''
        (snd (main wide_compiler stale_memory))
   \<and> exit_status (fst (main wide_compiler stale_memory)) = 0
   \<and> line_count (snd (main wide_compiler stale_memory)) = 45"
proof -
  have s1: "dbg (at_scan silent_compiler can_tag_objects stale_memory) [] = '';\<newline>''"
    using dbg_zero_image [OF nonzero_offsets_silent, where out = "[]"]
    by (simp only: append_Nil)
  have w0: "at_scan wide_compiler can_tag_objects stale_memory 0 = 0x03"
    by (simp add: at_scan_def wide_compiler_def)
  have w3: "at_scan wide_compiler can_tag_objects stale_memory 3 = 0x01"
    by (simp add: at_scan_def wide_compiler_def)
  have fmt: "printf_0x_02X_02X 0 3 = ''0x0003''" "printf_0x_02X_02X 3 1 = ''0x0301''"
    by (simp_all add: printf_0x_02X_02X_def fmt_02X_def hex_X.simps hex_digit_def)
  have w1: "dbg (at_scan wide_compiler can_tag_objects stale_memory) [] = ''0x00030x0301;\<newline>''"
    unfolding dbg_nonzero_offsets nonzero_offsets_wide list.map concat.simps w0 w3
    using fmt by simp
  have p1: "prefix ''pub const OFFSET_CAN_TAG_OBJECTS : usize = ;\<newline>''
        (snd (main silent_compiler stale_memory))"
    using main_first_block [OF sizeof_silent, of stale_memory] unfolding s1 by simp
  have p2: "prefix ''pub const OFFSET_CAN_TAG_OBJECTS : usize = 0x00030x0301;\<newline>''
        (snd (main wide_compiler stale_memory))"
    using main_first_block [OF sizeof_wide, of stale_memory] unfolding w1 by simp
  have e1: "exit_status (fst (main silent_compiler stale_memory)) = 0"
    by (simp add: fst_main sizeof_silent)
  have e2: "exit_status (fst (main wide_compiler stale_memory)) = 0"
    by (simp add: fst_main sizeof_wide)
  show ?thesis
    by (intro conjI sizeof_silent sizeof_wide nonzero_offsets_silent nonzero_offsets_wide
        p1 p2 e1 e2 w0 line_count_main)
qed

text \<open>
  Claim C1, amended. Whatever the 16 scanned bytes of a block are (no nonzero byte, several
  nonzero bytes, a byte with several bits), the program does not stop: the block prints its
  text, what \<^verbatim>\<open>dbg\<close> prints for each nonzero byte, and the delimiter; when the size of the
  structure is 16, every block of \<^verbatim>\<open>main\<close> prints its line and the program ends with
  exit status zero.
\<close>

theorem inconsistent_image_is_not_fatal:
  assumes "sizeof_jvmtiCapabilities c = 16"
  shows "stdout (probe c p (s, f)) =
           stdout p @ s @ concat (map (chunk (at_scan c f (cap p))) [0..<16]) @ '';\<newline>''
       \<and> snd (main c cap0) =
           concat (map2 (\<lambda>e img. fst e @ dbg img []) catalog (scanned c cap0 (map snd catalog)))
       \<and> length (scanned c cap0 (map snd catalog)) = length catalog
       \<and> line_count (snd (main c cap0)) = length catalog
       \<and> fst (main c cap0) = Return 0
       \<and> exit_status (fst (main c cap0)) = 0"
proof -
  have "stdout (probe c p (s, f)) =
           stdout p @ s @ concat (map (chunk (at_scan c f (cap p))) [0..<16]) @ '';\<newline>''"
    by (simp add: stdout_probe dbg_chunks)
  moreover have "snd (main c cap0) =
      concat (map2 (\<lambda>e img. fst e @ dbg img []) catalog (scanned c cap0 (map snd catalog)))"
    by (simp add: main_eq [OF assms])
  moreover have "line_count (snd (main c cap0)) = length catalog"
    by (simp add: line_count_main [OF assms] length_catalog)
  moreover have "fst (main c cap0) = Return 0"
    using assms by (rule fst_main)
  ultimately show ?thesis
    by (simp add: length_scanned)
qed

theorem inconsistent_image_is_not_fatal_witness:
  "sizeof_jvmtiCapabilities wide_compiler = 16
   \<and> nonzero_offsets (at_scan wide_compiler can_suspend stale_memory) = [0, 3]
   \<and> fst (main wide_compiler stale_memory) = Return 0
   \<and> exit_status (fst (main wide_compiler stale_memory)) = 0
   \<and> line_count (snd (main wide_compiler stale_memory)) = length catalog"
proof -
  note t = inconsistent_image_is_not_fatal [OF sizeof_wide, of _ _ _ stale_memory]
  from t have a: "fst (main wide_compiler stale_memory) = Return 0" by blast
  from t have b: "exit_status (fst (main wide_compiler stale_memory)) = 0" by blast
  from t have c: "line_count (snd (main wide_compiler stale_memory)) = length catalog" by blast
  show ?thesis
    by (intro conjI sizeof_wide nonzero_offsets_wide a b c)
qed

subsection \<open>C2\<close>

text \<open>
  Claim C2. If the size of the structure differs from 16, the program exits with a nonzero
  status (255) and has written nothing; if the size is 16, every block of \<^verbatim>\<open>main\<close> runs
  and the program ends with status zero.
\<close>

theorem size_check_decides_exit_status:
  "(sizeof_jvmtiCapabilities c \<noteq> 16 \<longrightarrow>
      exit_status (fst (main c cap0)) = 255 \<and> snd (main c cap0) = [])
   \<and> (sizeof_jvmtiCapabilities c = 16 \<longrightarrow>
      exit_status (fst (main c cap0)) = 0
      \<and> snd (main c cap0) = stdout (foldl (probe c) \<lparr>cap = cap0, stdout = []\<rparr> catalog))"
  by (simp add: main_def)

theorem size_check_decides_exit_status_witness:
  "sizeof_jvmtiCapabilities (bitfield_compiler 12 declaration_order) \<noteq> 16
   \<and> exit_status (fst (main (bitfield_compiler 12 declaration_order) stale_memory)) = 255
   \<and> snd (main (bitfield_compiler 12 declaration_order) stale_memory) = []
   \<and> sizeof_jvmtiCapabilities (bitfield_compiler 16 declaration_order) = 16
   \<and> exit_status (fst (main (bitfield_compiler 16 declaration_order) stale_memory)) = 0"
  using size_check_decides_exit_status [of "bitfield_compiler 12 declaration_order" stale_memory]
    size_check_decides_exit_status [of "bitfield_compiler 16 declaration_order" stale_memory]
  by (simp add: bitfield_compiler_def)

subsection \<open>C3\<close>

text \<open>
  Claim C3. For a byte offset below 16 and a single-bit mask \<open>0x01\<close> to \<open>0x80\<close>, when the
  scanned bytes hold the mask at the offset and zero elsewhere, \<^verbatim>\<open>dbg\<close> prints one integer
  literal, and the literal denotes \<open>(offset << 8) | mask\<close>. For offset 2 and mask \<open>0x08\<close>
  the literal is \<^verbatim>\<open>0x0208\<close>.
\<close>

theorem emitted_literal_encodes_layout_fact:
  assumes "offset < 16"
    and "bitmask \<in> {0x01, 0x02, 0x04, 0x08, 0x10, 0x20, 0x40, 0x80}"
    and "\<forall>j < 16. n j = (if j = offset then bitmask else 0)"
  shows "dbg n out = out @ printf_0x_02X_02X offset (unat bitmask) @ '';\<newline>''
     \<and> hex_literal_value (printf_0x_02X_02X offset (unat bitmask)) =
         Some (push_bit 8 offset OR unat bitmask)"
proof -
  from assms(1,3) have at: "n offset = bitmask" by simp
  have nz: "n offset \<noteq> 0"
    unfolding at using assms(2) by (rule single_bit_masks_nonzero)
  from assms(3) have rest: "\<forall>j < 16. j \<noteq> offset \<longrightarrow> n j = 0" by simp
  have "dbg n out = out @ printf_0x_02X_02X offset (unat (n offset)) @ '';\<newline>''"
    using assms(1) nz rest by (rule dbg_single_byte)
  moreover have "hex_literal_value (printf_0x_02X_02X offset (unat bitmask)) =
      Some (push_bit 8 offset OR unat bitmask)"
    by (simp add: hex_literal_value_printf shift_or_add unat_u8_less)
  ultimately show ?thesis by (simp add: at)
qed

theorem emitted_literal_encodes_layout_fact_witness:
  "(2 :: nat) < 16
   \<and> (0x08 :: u8) \<in> {0x01, 0x02, 0x04, 0x08, 0x10, 0x20, 0x40, 0x80}
   \<and> map (zero_memory(2 := 0x08)) [0..<16] = [0, 0, 0x08, 0, 0, 0, 0, 0, 0, 0, 0, 0, 0, 0, 0, 0]
   \<and> dbg (zero_memory(2 := 0x08)) [] = ''0x0208;\<newline>''
   \<and> hex_literal_value ''0x0208'' = Some 0x0208
   \<and> push_bit 8 (2 :: nat) OR unat (0x08 :: u8) = 0x0208"
proof -
  have h1: "(2 :: nat) < 16" by simp
  have h2: "(0x08 :: u8) \<in> {0x01, 0x02, 0x04, 0x08, 0x10, 0x20, 0x40, 0x80}" by simp
  have h3: "\<forall>j < 16. (zero_memory(2 := 0x08)) j = (if j = 2 then 0x08 else 0)"
    by (simp add: zero_memory_def)
  have img: "map (zero_memory(2 := 0x08)) [0..<16] = [0, 0, 0x08, 0, 0, 0, 0, 0, 0, 0, 0, 0, 0, 0, 0, 0]"
    by (simp add: zero_memory_def upt_conv_Cons)
  have fmt: "printf_0x_02X_02X 2 (unat (0x08 :: u8)) = ''0x0208''"
    by (simp add: printf_0x_02X_02X_def fmt_02X_def hex_X.simps hex_digit_def)
  have enc: "push_bit 8 (2 :: nat) OR unat (0x08 :: u8) = 0x0208"
    by (simp add: shift_or_add)
  note t = emitted_literal_encodes_layout_fact
    [of 2 "0x08" "zero_memory(2 := 0x08)" "[]", OF h1 h2 h3, unfolded fmt enc]
  from t have d: "dbg (zero_memory(2 := 0x08)) [] = ''0x0208;\<newline>''"
    by (simp only: append.simps)
  from t have v: "hex_literal_value ''0x0208'' = Some 0x0208" by (rule conjunct2)
  show ?thesis
    by (intro conjI h1 h2 img d v enc)
qed

subsection \<open>C4\<close>

text \<open>
  Claim C4 counts 44 iterations and 44 lines. The structure declares 45 single-bit fields,
  \<^verbatim>\<open>main\<close> has 45 blocks, and a run prints 45 lines.
\<close>

theorem catalog_has_45_entries_counterexample:
  "length catalog \<noteq> 44
   \<and> length catalog = 45
   \<and> length jvmtiCapabilities_fields = 45
   \<and> line_count (snd (main (bitfield_compiler 16 declaration_order) zero_memory)) \<noteq> 44
   \<and> line_count (snd (main (bitfield_compiler 16 declaration_order) zero_memory)) = 45"
proof -
  show ?thesis
    by (simp add: length_catalog length_fields line_count_main sizeof_bitfield)
qed

text \<open>
  Claim C4, amended. When the size of the structure is 16, \<^verbatim>\<open>main\<close> runs exactly 45
  blocks, one for each named field of the structure and in the order of their declaration;
  each block prints exactly one line, so the output has 45 lines, in that order.
\<close>

theorem driver_runs_45_blocks_in_declaration_order:
  assumes "sizeof_jvmtiCapabilities c = 16"
  shows "length catalog = 45
       \<and> map snd catalog = jvmtiCapabilities_fields
       \<and> distinct jvmtiCapabilities_fields
       \<and> snd (main c cap0) =
           concat (map2 (\<lambda>e img. fst e @ dbg img []) catalog
                     (scanned c cap0 jvmtiCapabilities_fields))
       \<and> length (scanned c cap0 jvmtiCapabilities_fields) = 45
       \<and> (\<forall>e \<in> set catalog. \<forall>img. line_count (fst e @ dbg img []) = 1)
       \<and> line_count (snd (main c cap0)) = 45"
proof -
  have "distinct jvmtiCapabilities_fields"
    by (simp add: jvmtiCapabilities_fields_def)
  moreover have "snd (main c cap0) =
      concat (map2 (\<lambda>e img. fst e @ dbg img []) catalog
                (scanned c cap0 jvmtiCapabilities_fields))"
    by (simp add: main_eq [OF assms] catalog_fields)
  moreover have "length (scanned c cap0 jvmtiCapabilities_fields) = 45"
    by (simp add: length_scanned length_fields)
  moreover have "\<forall>e \<in> set catalog. \<forall>img. line_count (fst e @ dbg img []) = 1"
    using catalog_texts_one_line by (simp add: line_count_append line_count_dbg)
  moreover note length_catalog catalog_fields line_count_main [OF assms, of cap0]
  ultimately show ?thesis
    by blast
qed

theorem driver_runs_45_blocks_in_declaration_order_witness:
  "sizeof_jvmtiCapabilities (bitfield_compiler 16 declaration_order) = 16
   \<and> length catalog = 45
   \<and> map snd catalog = jvmtiCapabilities_fields
   \<and> line_count (snd (main (bitfield_compiler 16 declaration_order) stale_memory)) = 45"
proof -
  note t = driver_runs_45_blocks_in_declaration_order
    [OF sizeof_bitfield [of 16 declaration_order], of stale_memory]
  from t have a: "length catalog = 45" by blast
  from t have b: "map snd catalog = jvmtiCapabilities_fields" by blast
  from t have c: "line_count (snd (main (bitfield_compiler 16 declaration_order) stale_memory)) = 45"
    by blast
  show ?thesis
    by (intro conjI sizeof_bitfield a b c)
qed

subsection \<open>C5\<close>

text \<open>
  Claim C5. Under a compiler that gives each field one bit, a block of \<^verbatim>\<open>main\<close> started
  in any state of the program clears the 16 bytes of \<^verbatim>\<open>cap\<close> and assigns one field; at the
  call of \<^verbatim>\<open>dbg\<close> the only nonzero bit among the 16 bytes is the bit of that field, and
  what the block prints depends on the field alone, not on the state left by earlier blocks.
\<close>

theorem probe_starts_from_zeroed_image:
  "cap (probe (bitfield_compiler 16 L) p (s, f)) = bitfield_assign_1 L f (memset_zero 16 (cap p))
   \<and> (\<forall>i < 16. memset_zero 16 (cap p) i = 0)
   \<and> (\<forall>i < 16. cap (probe (bitfield_compiler 16 L) p (s, f)) i =
         (if i = L f div 8 then push_bit (L f mod 8) 1 else 0))
   \<and> stdout (probe (bitfield_compiler 16 L) p (s, f)) =
       stdout p @ s @ dbg (zero_memory(L f div 8 := push_bit (L f mod 8) 1)) []"
proof -
  have "cap (probe (bitfield_compiler 16 L) p (s, f)) =
      bitfield_assign_1 L f (memset_zero 16 (cap p))"
    by (simp add: cap_probe at_scan_def bitfield_compiler_def)
  moreover have "\<forall>i < 16. memset_zero 16 (cap p) i = 0"
    by (simp add: memset_zero_def)
  moreover have "\<forall>i < 16. cap (probe (bitfield_compiler 16 L) p (s, f)) i =
         (if i = L f div 8 then push_bit (L f mod 8) 1 else 0)"
    by (simp add: cap_probe at_scan_bitfield)
  moreover have "stdout (probe (bitfield_compiler 16 L) p (s, f)) =
       stdout p @ s @ dbg (zero_memory(L f div 8 := push_bit (L f mod 8) 1)) []"
    by (simp add: stdout_probe dbg_at_scan_bitfield)
  ultimately show ?thesis by blast
qed

theorem probe_starts_from_zeroed_image_witness:
  "map (memset_zero 16 stale_memory) [0..<16] = [0, 0, 0, 0, 0, 0, 0, 0, 0, 0, 0, 0, 0, 0, 0, 0]
   \<and> map (cap (probe (bitfield_compiler 16 declaration_order)
                  \<lparr>cap = stale_memory, stdout = ''x;''\<rparr> (''y = '', can_suspend))) [0..<16]
       = [0, 0, 0x10, 0, 0, 0, 0, 0, 0, 0, 0, 0, 0, 0, 0, 0]
   \<and> stdout (probe (bitfield_compiler 16 declaration_order)
                \<lparr>cap = stale_memory, stdout = ''x;''\<rparr> (''y = '', can_suspend))
       = ''x;y = 0x0210;\<newline>''"
proof -
  let ?p = "\<lparr>cap = stale_memory, stdout = ''x;''\<rparr>"
  note t = probe_starts_from_zeroed_image [of declaration_order ?p "''y = ''" can_suspend]
  have z: "map (memset_zero 16 stale_memory) [0..<16] = [0, 0, 0, 0, 0, 0, 0, 0, 0, 0, 0, 0, 0, 0, 0, 0]"
    by (simp add: memset_zero_def upt_conv_Cons)
  have pos: "declaration_order can_suspend div 8 = 2"
      "push_bit (declaration_order can_suspend mod 8) (1 :: u8) = 0x10"
    by (simp_all add: declaration_order_can_suspend)
  from t have "\<forall>i < 16. cap (probe (bitfield_compiler 16 declaration_order) ?p (''y = '', can_suspend)) i =
         (if i = declaration_order can_suspend div 8
          then push_bit (declaration_order can_suspend mod 8) 1 else 0)"
    by blast
  then have c: "map (cap (probe (bitfield_compiler 16 declaration_order) ?p (''y = '', can_suspend)))
      [0..<16] = [0, 0, 0x10, 0, 0, 0, 0, 0, 0, 0, 0, 0, 0, 0, 0, 0]"
    unfolding pos by (simp add: upt_conv_Cons)
  have d: "dbg (zero_memory(2 := 0x10)) [] = ''0x0210;\<newline>''"
    by (simp add: dbg_def dbg_loop.simps zero_memory_def printf_0x_02X_02X_def fmt_02X_def
        hex_X.simps hex_digit_def)
  from t have "stdout (probe (bitfield_compiler 16 declaration_order) ?p (''y = '', can_suspend)) =
       stdout ?p @ ''y = '' @ dbg (zero_memory(declaration_order can_suspend div 8 :=
          push_bit (declaration_order can_suspend mod 8) 1)) []"
    by blast
  then have e: "stdout (probe (bitfield_compiler 16 declaration_order) ?p (''y = '', can_suspend)) =
       ''x;y = 0x0210;\<newline>''"
    unfolding pos d by simp
  show ?thesis
    by (intro conjI z c e)
qed

subsection \<open>C6\<close>

text \<open>
  Claim C6. For a fixed size and a fixed position of each field's bit, two runs of the
  program end in the same way and print the same output, whatever the bytes of the
  uninitialised variable \<^verbatim>\<open>cap\<close> are at the start of each run.
\<close>

theorem output_independent_of_stale_memory:
  "main (bitfield_compiler sz L) cap1 = main (bitfield_compiler sz L) cap2"
proof (cases "sz = 16")
  case True
  then show ?thesis
    by (simp only: main_bitfield)
next
  case False
  then show ?thesis
    by (simp add: main_def bitfield_compiler_def)
qed

theorem output_independent_of_stale_memory_witness:
  "main (bitfield_compiler 16 declaration_order) zero_memory =
   main (bitfield_compiler 16 declaration_order) stale_memory"
  by (rule output_independent_of_stale_memory)

subsection \<open>C7\<close>

text \<open>
  Claim C7. When the compiler places \<^verbatim>\<open>can_tag_objects\<close>, the first entry of the catalog,
  at bit 0 of byte 0, the first block scans an image whose only nonzero byte is byte 0
  with the value \<open>0x01\<close>, and the first line of the output carries the literal
  \<^verbatim>\<open>0x0001\<close>, which denotes the value \<open>0x0001\<close>.
\<close>

theorem first_entry_reports_0x0001:
  assumes "L can_tag_objects = 0"
  shows "hd catalog = (''pub const OFFSET_CAN_TAG_OBJECTS : usize = '', can_tag_objects)
       \<and> nonzero_offsets (at_scan (bitfield_compiler 16 L) can_tag_objects cap0) = [0]
       \<and> at_scan (bitfield_compiler 16 L) can_tag_objects cap0 0 = 0x01
       \<and> prefix ''pub const OFFSET_CAN_TAG_OBJECTS : usize = 0x0001;\<newline>''
           (snd (main (bitfield_compiler 16 L) cap0))
       \<and> hex_literal_value ''0x0001'' = Some 0x0001"
proof -
  let ?img = "at_scan (bitfield_compiler 16 L) can_tag_objects cap0"
  have img: "\<forall>i < 16. ?img i = (if i = 0 then 1 else 0)"
    by (simp add: at_scan_bitfield assms)
  then have b0: "?img 0 = 0x01" by simp
  have offs: "nonzero_offsets ?img = [0]"
    using img by (rule nonzero_offsets_byte0) simp
  have fmt: "printf_0x_02X_02X 0 (unat (1 :: u8)) = ''0x0001''"
    by (simp add: printf_0x_02X_02X_def fmt_02X_def hex_X.simps hex_digit_def)
  have "dbg ?img [] = [] @ printf_0x_02X_02X 0 (unat (?img 0)) @ '';\<newline>''"
    using img by (intro dbg_single_byte) simp_all
  then have d: "dbg ?img [] = ''0x0001;\<newline>''"
    unfolding b0 fmt by simp
  have p: "prefix ''pub const OFFSET_CAN_TAG_OBJECTS : usize = 0x0001;\<newline>''
           (snd (main (bitfield_compiler 16 L) cap0))"
    using main_first_block [OF sizeof_bitfield [of 16 L], of cap0] unfolding d by simp
  have h: "hd catalog = (''pub const OFFSET_CAN_TAG_OBJECTS : usize = '', can_tag_objects)"
    by (subst catalog_Cons) simp
  have v: "hex_literal_value ''0x0001'' = Some 0x0001"
    using hex_literal_value_printf [of "unat (1 :: u8)" 0] unfolding fmt by simp
  show ?thesis
    by (intro conjI h offs b0 p v)
qed

theorem first_entry_reports_0x0001_witness:
  "declaration_order can_tag_objects = 0
   \<and> nonzero_offsets (at_scan (bitfield_compiler 16 declaration_order) can_tag_objects stale_memory) = [0]
   \<and> at_scan (bitfield_compiler 16 declaration_order) can_tag_objects stale_memory 0 = 0x01
   \<and> prefix ''pub const OFFSET_CAN_TAG_OBJECTS : usize = 0x0001;\<newline>''
        (snd (main (bitfield_compiler 16 declaration_order) stale_memory))
   \<and> hex_literal_value ''0x0001'' = Some 0x0001"
proof -
  note t = first_entry_reports_0x0001
    [of declaration_order stale_memory, OF declaration_order_can_tag_objects]
  show ?thesis
    using t declaration_order_can_tag_objects by blast
qed

subsection \<open>C8\<close>

text \<open>
  Claim C8. If the image scanned in a block has no nonzero byte, the block prints its text
  followed by the delimiter and a newline only, with no integer literal; the program goes
  on with the next block from that state, and it still ends with exit status zero.
\<close>

theorem zero_image_prints_empty_right_hand_side:
  assumes "sizeof_jvmtiCapabilities c = 16"
    and "nonzero_offsets (at_scan c f (cap p)) = []"
  shows "probe c p (s, f) = \<lparr>cap = at_scan c f (cap p), stdout = stdout p @ s @ '';\<newline>''\<rparr>
       \<and> foldl (probe c) p ((s, f) # es) =
           foldl (probe c) \<lparr>cap = at_scan c f (cap p), stdout = stdout p @ s @ '';\<newline>''\<rparr> es
       \<and> fst (main c cap0) = Return 0
       \<and> exit_status (fst (main c cap0)) = 0"
proof -
  have "dbg (at_scan c f (cap p)) [] = [] @ '';\<newline>''"
    using assms(2) by (rule dbg_zero_image)
  then have p: "probe c p (s, f) =
      \<lparr>cap = at_scan c f (cap p), stdout = stdout p @ s @ '';\<newline>''\<rparr>"
    using cap_probe [of c p "(s, f)"] stdout_probe [of c p "(s, f)"] by simp
  have "foldl (probe c) p ((s, f) # es) = foldl (probe c) (probe c p (s, f)) es"
    by simp
  then have "foldl (probe c) p ((s, f) # es) =
           foldl (probe c) \<lparr>cap = at_scan c f (cap p), stdout = stdout p @ s @ '';\<newline>''\<rparr> es"
    unfolding p .
  moreover have "fst (main c cap0) = Return 0"
    using assms(1) by (rule fst_main)
  ultimately show ?thesis
    using p by simp
qed

theorem zero_image_prints_empty_right_hand_side_witness:
  "sizeof_jvmtiCapabilities silent_compiler = 16
   \<and> nonzero_offsets (at_scan silent_compiler can_pop_frame stale_memory) = []
   \<and> stdout (probe silent_compiler \<lparr>cap = stale_memory, stdout = []\<rparr>
               (''pub const OFFSET_CAN_POP_FRAME : usize = '', can_pop_frame))
       = ''pub const OFFSET_CAN_POP_FRAME : usize = ;\<newline>''
   \<and> exit_status (fst (main silent_compiler stale_memory)) = 0"
proof -
  let ?p = "\<lparr>cap = stale_memory, stdout = []\<rparr>"
  have z: "nonzero_offsets (at_scan silent_compiler can_pop_frame (cap ?p)) = []"
    by (rule nonzero_offsets_silent)
  note t = zero_image_prints_empty_right_hand_side
    [OF sizeof_silent z, of "''pub const OFFSET_CAN_POP_FRAME : usize = ''" "[]" stale_memory]
  from t have a: "stdout (probe silent_compiler ?p
               (''pub const OFFSET_CAN_POP_FRAME : usize = '', can_pop_frame))
       = ''pub const OFFSET_CAN_POP_FRAME : usize = ;\<newline>''"
    by simp
  from t have b: "exit_status (fst (main silent_compiler stale_memory)) = 0"
    by simp
  show ?thesis
    by (intro conjI sizeof_silent nonzero_offsets_silent a b)
qed

subsection \<open>C9\<close>

text \<open>
  Claim C9. Whatever the scanned bytes are, also with more than one nonzero byte, \<^verbatim>\<open>dbg\<close>
  prints for every nonzero byte \<^verbatim>\<open>0x\<close>, two hexadecimal digits of the offset and two of the
  value, in strictly ascending order of the offsets and with nothing in between, and then
  the delimiter and a newline. Nothing else is printed.
\<close>

theorem dbg_prints_every_nonzero_byte:
  "dbg n out =
     out @ concat (map (\<lambda>i. ''0x'' @ fmt_02X i @ fmt_02X (unat (n i))) (nonzero_offsets n))
         @ '';\<newline>''
   \<and> sorted_wrt (<) (nonzero_offsets n)
   \<and> set (nonzero_offsets n) = {i. i < 16 \<and> n i \<noteq> 0}
   \<and> (\<forall>i \<in> set (nonzero_offsets n).
        length (fmt_02X i) = 2 \<and> length (fmt_02X (unat (n i))) = 2
        \<and> set (fmt_02X i @ fmt_02X (unat (n i))) \<subseteq> set ''0123456789ABCDEF'')"
proof -
  have "dbg n out =
     out @ concat (map (\<lambda>i. ''0x'' @ fmt_02X i @ fmt_02X (unat (n i))) (nonzero_offsets n))
         @ '';\<newline>''"
    using dbg_nonzero_offsets [of n out] by (simp add: printf_0x_02X_02X_def)
  moreover have "sorted_wrt (<) (nonzero_offsets n)"
    unfolding nonzero_offsets_def by (rule sorted_wrt_filter) simp
  moreover have "set (nonzero_offsets n) = {i. i < 16 \<and> n i \<noteq> 0}"
    by (auto simp: nonzero_offsets_def)
  moreover have "\<forall>i \<in> set (nonzero_offsets n).
        length (fmt_02X i) = 2 \<and> length (fmt_02X (unat (n i))) = 2
        \<and> set (fmt_02X i @ fmt_02X (unat (n i))) \<subseteq> set ''0123456789ABCDEF''"
  proof
    fix i assume "i \<in> set (nonzero_offsets n)"
    then have "i < 256" by (simp add: nonzero_offsets_def)
    then show "length (fmt_02X i) = 2 \<and> length (fmt_02X (unat (n i))) = 2
        \<and> set (fmt_02X i @ fmt_02X (unat (n i))) \<subseteq> set ''0123456789ABCDEF''"
      using set_fmt_02X [of i] set_fmt_02X [of "unat (n i)"]
      by (simp add: length_fmt_02X unat_u8_less)
  qed
  ultimately show ?thesis by blast
qed

theorem dbg_prints_every_nonzero_byte_witness:
  "nonzero_offsets (zero_memory(2 := 0x80, 4 := 0x03)) = [2, 4]
   \<and> dbg (zero_memory(2 := 0x80, 4 := 0x03)) ''x = '' = ''x = 0x02800x0403;\<newline>''"
proof -
  let ?n = "zero_memory(2 := 0x80, 4 := 0x03)"
  have offs: "nonzero_offsets ?n = [2, 4]"
    by (simp add: nonzero_offsets_def zero_memory_def upt_conv_Cons)
  have vals: "unat (?n 2) = 128" "unat (?n 4) = 3"
    by simp_all
  have fmt: "fmt_02X 2 = ''02''" "fmt_02X 4 = ''04''" "fmt_02X 128 = ''80''" "fmt_02X 3 = ''03''"
    by (simp_all add: fmt_02X_def hex_X.simps hex_digit_def)
  have "dbg ?n ''x = '' =
      ''x = '' @ concat (map (\<lambda>i. ''0x'' @ fmt_02X i @ fmt_02X (unat (?n i))) [2, 4])
        @ '';\<newline>''"
    using dbg_prints_every_nonzero_byte [of ?n "''x = ''"] unfolding offs by (rule conjunct1)
  then have d: "dbg ?n ''x = '' = ''x = 0x02800x0403;\<newline>''"
    unfolding list.map concat.simps vals fmt by simp
  show ?thesis
    by (intro conjI offs d)
qed

subsection \<open>C10\<close>

text \<open>
  Claim C10. The program ends in one of two ways: by \<^verbatim>\<open>exit(-1)\<close>, observed as status 255,
  when the size of the structure is not 16, and by \<^verbatim>\<open>return 0\<close> otherwise. Which of the
  two depends on the size alone, not on the bytes that \<^verbatim>\<open>dbg\<close> scans.
\<close>

theorem main_exit_paths:
  "fst (main c cap0) = (if sizeof_jvmtiCapabilities c \<noteq> 16 then Exit (- 1) else Return 0)
   \<and> exit_status (Exit (- 1)) = 255
   \<and> exit_status (Return 0) = 0
   \<and> (exit_status (fst (main c cap0)) = 255 \<or> exit_status (fst (main c cap0)) = 0)"
  by (simp add: main_def)

end
